theory Spec2Isabelle
  imports Main "HOL-Library.Word"
begin

section \<open>JavaScript values\<close>

text \<open>
  A JavaScript string is a sequence of 16-bit code units. Source literals are ASCII and are
  written through \<open>ascii\<close>.
\<close>

type_synonym jsstring = "16 word list"

definition ascii :: "string \<Rightarrow> jsstring" where
  "ascii s = map (\<lambda>c. word_of_nat (of_char c)) s"

text \<open>
  The values that travel through the controller: request bodies, what the collaborators
  resolve to, and what is handed to \<open>res.json\<close>. \<open>JNum n\<close> stands for the number
  that is the 32-bit signed integer \<open>sint n\<close>; \<open>JObj ps\<close> is a plain object (its
  prototype is \<open>Object.prototype\<close>) given by the list of its own string-keyed properties,
  first entry of a key winning.
\<close>

datatype jsval =
    JUndefined
  | JNull
  | JBool bool
  | JNum "32 word"
  | JStr jsstring
  | JObj "(jsstring \<times> jsval) list"

text \<open>What a JavaScript \<open>throw\<close> carries: the two built-in errors the code can raise by
  itself, or the reason a collaborator failed with.\<close>

datatype exn = TypeError | URIError | Reason jsval

text \<open>
  Property read \<open>v.k\<close>. Reading a property of \<open>undefined\<close> or \<open>null\<close> throws a
  TypeError; a missing property is \<open>undefined\<close>. The names read by the code
  (\<open>token\<close>, \<open>email\<close>, \<open>account_id\<close>, \<open>email_confirmed\<close>,
  \<open>email_confirmation_token\<close>, \<open>two_factor_code\<close>, \<open>device_name\<close>,
  \<open>user-agent\<close>, \<open>subtle\<close>) are not defined on the wrappers of booleans, numbers and
  strings, so they read as \<open>undefined\<close> there.
\<close>

fun get_prop :: "jsval \<Rightarrow> jsstring \<Rightarrow> exn + jsval" where
  "get_prop JUndefined k = Inl TypeError"
| "get_prop JNull k = Inl TypeError"
| "get_prop (JObj ps) k = Inr (case map_of ps k of None \<Rightarrow> JUndefined | Some v \<Rightarrow> v)"
| "get_prop v k = Inr JUndefined"

text \<open>ToBoolean, as applied by \<open>!\<close> and \<open>if\<close>.\<close>

fun truthy :: "jsval \<Rightarrow> bool" where
  "truthy JUndefined = False"
| "truthy JNull = False"
| "truthy (JBool b) = b"
| "truthy (JNum n) = (n \<noteq> 0)"
| "truthy (JStr s) = (s \<noteq> [])"
| "truthy (JObj ps) = True"

section \<open>Strings built by the controller\<close>

text \<open>
  ToString, as a template literal and \<open>encodeURI\<close> apply it. A 32-bit integer prints as
  its decimal digits. An object is printed by its \<open>toString\<close> method: the inherited one
  gives \<open>[object Object]\<close>; an own property \<open>toString\<close> hides it, and since no value
  here is a function (and \<open>valueOf\<close>, own or inherited, gives no primitive either) the
  conversion throws a TypeError.
\<close>

fun decimal :: "nat \<Rightarrow> jsstring" where
  "decimal n =
     (if n < 10 then [word_of_nat (48 + n)]
      else decimal (n div 10) @ [word_of_nat (48 + n mod 10)])"

fun to_string :: "jsval \<Rightarrow> exn + jsstring" where
  "to_string JUndefined = Inr (ascii ''undefined'')"
| "to_string JNull = Inr (ascii ''null'')"
| "to_string (JBool b) = Inr (if b then ascii ''true'' else ascii ''false'')"
| "to_string (JNum n) =
     Inr (if sint n < 0 then ascii ''-'' @ decimal (nat (- sint n)) else decimal (nat (sint n)))"
| "to_string (JStr s) = Inr s"
| "to_string (JObj ps) =
     (case map_of ps (ascii ''toString'') of
        None \<Rightarrow> Inr (ascii ''[object Object]'')
      | Some v \<Rightarrow> Inl TypeError)"

text \<open>
  The built-in \<open>encodeURI\<close>: its argument is converted by ToString, then (ECMAScript
  \<open>Encode\<close> with the reserved and unescaped sets and \<open>#\<close>) a code unit of the set is
  kept; any other code point is written as the \<open>%XX\<close> escapes of its UTF-8 octets; a
  surrogate that has no partner throws a URIError.
\<close>

definition uri_kept :: "16 word \<Rightarrow> bool" where
  "uri_kept c =
     (c \<in> set (ascii ''ABCDEFGHIJKLMNOPQRSTUVWXYZabcdefghijklmnopqrstuvwxyz0123456789'')
      \<or> c \<in> set (ascii '';/?:@&=+$,#-_.!~*()'') \<or> c = 0x27)"

definition hex_digit :: "nat \<Rightarrow> 16 word" where
  "hex_digit n = ascii ''0123456789ABCDEF'' ! (n mod 16)"

definition percent :: "nat \<Rightarrow> jsstring" where
  "percent octet = [0x25, hex_digit (octet div 16), hex_digit (octet mod 16)]"

definition utf8 :: "nat \<Rightarrow> nat list" where
  "utf8 cp =
     (if cp < 0x80 then [cp]
      else if cp < 0x800 then [0xC0 + cp div 64, 0x80 + cp mod 64]
      else if cp < 0x10000 then
        [0xE0 + cp div 4096, 0x80 + (cp div 64) mod 64, 0x80 + cp mod 64]
      else [0xF0 + cp div 262144, 0x80 + (cp div 4096) mod 64,
            0x80 + (cp div 64) mod 64, 0x80 + cp mod 64])"

definition leading_surrogate :: "16 word \<Rightarrow> bool" where
  "leading_surrogate c = (0xD800 \<le> c \<and> c \<le> 0xDBFF)"

definition trailing_surrogate :: "16 word \<Rightarrow> bool" where
  "trailing_surrogate c = (0xDC00 \<le> c \<and> c \<le> 0xDFFF)"

definition escape :: "nat \<Rightarrow> jsstring" where
  "escape cp = concat (map percent (utf8 cp))"

definition prepend :: "jsstring \<Rightarrow> exn + jsstring \<Rightarrow> exn + jsstring" where
  "prepend s r = (case r of Inl e \<Rightarrow> Inl e | Inr t \<Rightarrow> Inr (s @ t))"

fun encode :: "jsstring \<Rightarrow> exn + jsstring" where
  "encode [] = Inr []"
| "encode [c] =
     (if uri_kept c then Inr [c]
      else if leading_surrogate c \<or> trailing_surrogate c then Inl URIError
      else Inr (escape (unat c)))"
| "encode (c # d # cs) =
     (if uri_kept c then prepend [c] (encode (d # cs))
      else if trailing_surrogate c then Inl URIError
      else if leading_surrogate c then
        (if trailing_surrogate d then
           prepend (escape ((unat c - 0xD800) * 0x400 + (unat d - 0xDC00) + 0x10000))
             (encode cs)
         else Inl URIError)
      else prepend (escape (unat c)) (encode (d # cs)))"

definition encodeURI :: "jsval \<Rightarrow> exn + jsstring" where
  "encodeURI v = (case to_string v of Inl e \<Rightarrow> Inl e | Inr s \<Rightarrow> encode s)"

text \<open>\<open>process.env\<close>: a variable is a string, or is not set and reads as \<open>undefined\<close>.\<close>

type_synonym process_env = "string \<Rightarrow> jsstring option"

definition env_var :: "process_env \<Rightarrow> string \<Rightarrow> jsval" where
  "env_var env name = (case env name of None \<Rightarrow> JUndefined | Some s \<Rightarrow> JStr s)"

section \<open>Collaborators, requests and effects\<close>

text \<open>
  \<open>UserController(userModel, mailService, socketModel)\<close> closes over three collaborator
  objects. A collaborator is any function from a method name and the arguments to what
  the call does: it throws at once, or it returns a promise that fulfils with a value,
  rejects with a reason, or never settles (a plain return value is \<open>Fulfilled\<close>, as
  \<open>await\<close> treats it).
\<close>

datatype outcome = Fulfilled jsval | Rejected jsval | Pending | Thrown jsval

type_synonym service = "string \<Rightarrow> jsval list \<Rightarrow> outcome"

record controller =
  userModel :: service
  mailService :: service
  socketModel :: service

text \<open>The fields of the Express request that the handlers read.\<close>

record request =
  req_user :: jsval
  req_body :: jsval
  req_headers :: jsval

text \<open>
  What a handler does to the outside, in order: calls of collaborator methods and the
  two response methods it uses, \<open>res.status(n)\<close> and \<open>res.json(v)\<close>.
\<close>

datatype collaborator = UserModel | MailService | SocketModel

datatype event =
    Call collaborator string "jsval list"
  | ResStatus nat
  | ResJson jsval

text \<open>
  An \<open>async\<close> handler either runs to its end (its promise fulfils), stops at a throw or
  at a rejected \<open>await\<close> (its promise rejects with that reason), or is suspended for
  ever at an \<open>await\<close> whose promise never settles.
\<close>

datatype halt = Throw exn | Suspend

type_synonym 'a act = "event list \<times> (halt + 'a)"

definition seq :: "'a act \<Rightarrow> ('a \<Rightarrow> 'b act) \<Rightarrow> 'b act" where
  "seq m f =
     (case m of
        (t, Inl h) \<Rightarrow> (t, Inl h)
      | (t, Inr x) \<Rightarrow> (case f x of (t', r) \<Rightarrow> (t @ t', r)))"

definition skip :: "unit act" where
  "skip = ([], Inr ())"

definition compute :: "exn + 'a \<Rightarrow> 'a act" where
  "compute r = (case r of Inl e \<Rightarrow> ([], Inl (Throw e)) | Inr x \<Rightarrow> ([], Inr x))"

definition invoke :: "controller \<Rightarrow> collaborator \<Rightarrow> service" where
  "invoke c who =
     (case who of
        UserModel \<Rightarrow> userModel c
      | MailService \<Rightarrow> mailService c
      | SocketModel \<Rightarrow> socketModel c)"

text \<open>\<open>await who.method(args)\<close>\<close>

definition await :: "controller \<Rightarrow> collaborator \<Rightarrow> string \<Rightarrow> jsval list \<Rightarrow> jsval act" where
  "await c who method args =
     ([Call who method args],
      case invoke c who method args of
        Fulfilled v \<Rightarrow> Inr v
      | Rejected e \<Rightarrow> Inl (Throw (Reason e))
      | Pending \<Rightarrow> Inl Suspend
      | Thrown e \<Rightarrow> Inl (Throw (Reason e)))"

text \<open>\<open>who.method(args);\<close> as a statement: the promise it returns is dropped.\<close>

definition call_unawaited ::
  "controller \<Rightarrow> collaborator \<Rightarrow> string \<Rightarrow> jsval list \<Rightarrow> unit act" where
  "call_unawaited c who method args =
     ([Call who method args],
      case invoke c who method args of
        Thrown e \<Rightarrow> Inl (Throw (Reason e))
      | Fulfilled v \<Rightarrow> Inr ()
      | Rejected e \<Rightarrow> Inr ()
      | Pending \<Rightarrow> Inr ())"

definition res_status :: "nat \<Rightarrow> unit act" where
  "res_status n = ([ResStatus n], Inr ())"

definition res_json :: "jsval \<Rightarrow> unit act" where
  "res_json v = ([ResJson v], Inr ())"

text \<open>
  The HTTP response a trace leaves: the status last set (Express starts at 200) and the
  bodies sent.
\<close>

fun statuses :: "event list \<Rightarrow> nat list" where
  "statuses [] = []"
| "statuses (ResStatus n # es) = n # statuses es"
| "statuses (e # es) = statuses es"

fun bodies :: "event list \<Rightarrow> jsval list" where
  "bodies [] = []"
| "bodies (ResJson v # es) = v # bodies es"
| "bodies (e # es) = bodies es"

definition response :: "event list \<Rightarrow> nat \<times> jsval list" where
  "response t = ((case statuses t of [] \<Rightarrow> 200 | ns \<Rightarrow> last ns), bodies t)"

text \<open>The calls a trace makes to one collaborator.\<close>

fun calls_to :: "collaborator \<Rightarrow> event list \<Rightarrow> event list" where
  "calls_to who [] = []"
| "calls_to who (Call w m args # es) =
     (if w = who then Call w m args # calls_to who es else calls_to who es)"
| "calls_to who (e # es) = calls_to who es"

section \<open>Server: the handlers of \<open>user.controller.js\<close>\<close>

definition signup :: "controller \<Rightarrow> process_env \<Rightarrow> request \<Rightarrow> unit act" where
  "signup c env req =
     seq (await c UserModel ''signup'' [req_body req]) (\<lambda>user.
     seq (compute (to_string (env_var env ''GLADYS_GATEWAY_FRONTEND_URL''))) (\<lambda>frontend1.
     seq (compute (get_prop user (ascii ''email_confirmation_token''))) (\<lambda>token1.
     seq (compute (encodeURI token1)) (\<lambda>encoded1.
     seq (compute (to_string (env_var env ''GLADYS_PLUS_FRONTEND_URL''))) (\<lambda>frontend2.
     seq (compute (get_prop user (ascii ''email_confirmation_token''))) (\<lambda>token2.
     seq (compute (encodeURI token2)) (\<lambda>encoded2.
     seq (call_unawaited c MailService ''send''
            [user, JStr (ascii ''confirmation''),
             JObj [(ascii ''confirmationUrl'',
                    JStr (frontend1 @ ascii ''/confirm-email/'' @ encoded1)),
                   (ascii ''confirmationUrlGladys4'',
                    JStr (frontend2 @ ascii ''/confirm-email/'' @ encoded2))]]) (\<lambda>_.
     seq (res_status 201) (\<lambda>_.
     res_json
       (JObj [(ascii ''status'', JNum 201),
              (ascii ''message'',
               JStr (ascii ''User created with success. You need now to confirm your email.''))])
     )))))))))"

definition updateUser :: "controller \<Rightarrow> process_env \<Rightarrow> request \<Rightarrow> unit act" where
  "updateUser c env req =
     seq (await c UserModel ''updateUser'' [req_user req, req_body req]) (\<lambda>user.
     seq (compute (get_prop user (ascii ''email_confirmed''))) (\<lambda>email_confirmed.
     seq (if email_confirmed = JBool False then
            seq (compute (to_string (env_var env ''GLADYS_GATEWAY_FRONTEND_URL''))) (\<lambda>frontend1.
            seq (compute (get_prop user (ascii ''email_confirmation_token''))) (\<lambda>token1.
            seq (compute (to_string token1)) (\<lambda>printed1.
            seq (compute (to_string (env_var env ''GLADYS_PLUS_FRONTEND_URL''))) (\<lambda>frontend2.
            seq (compute (get_prop user (ascii ''email_confirmation_token''))) (\<lambda>token2.
            seq (compute (to_string token2)) (\<lambda>printed2.
            call_unawaited c MailService ''send''
              [user, JStr (ascii ''confirmation''),
               JObj [(ascii ''confirmationUrl'',
                      JStr (frontend1 @ ascii ''/confirm-email/'' @ printed1)),
                     (ascii ''confirmationUrlGladys4'',
                      JStr (frontend2 @ ascii ''/confirm-email/'' @ printed2))]]))))))
          else skip) (\<lambda>_.
     res_json user)))"


definition loginTwoFactor :: "controller \<Rightarrow> request \<Rightarrow> unit act" where
  "loginTwoFactor c req =
     seq (compute (get_prop (req_body req) (ascii ''two_factor_code''))) (\<lambda>two_factor_code.
     seq (compute (get_prop (req_body req) (ascii ''device_name''))) (\<lambda>device_name.
     seq (compute (get_prop (req_headers req) (ascii ''user-agent''))) (\<lambda>user_agent.
     seq (await c UserModel ''loginTwoFactor''
            [req_user req, two_factor_code, device_name, user_agent]) (\<lambda>tokens.
     res_json tokens))))"

definition forgotPassword :: "controller \<Rightarrow> request \<Rightarrow> unit act" where
  "forgotPassword c req =
     seq (compute (get_prop (req_body req) (ascii ''email''))) (\<lambda>email.
     seq (await c UserModel ''forgotPassword'' [email]) (\<lambda>_.
     res_json (JObj [(ascii ''success'', JBool True)])))"

definition resetPassword :: "controller \<Rightarrow> request \<Rightarrow> unit act" where
  "resetPassword c req =
     seq (compute (get_prop (req_body req) (ascii ''token''))) (\<lambda>token.
     seq (await c UserModel ''resetPassword'' [token, req_body req]) (\<lambda>newUser.
     seq (compute (get_prop newUser (ascii ''account_id''))) (\<lambda>account_id.
     seq (await c SocketModel ''askInstanceToClearKeyCache'' [account_id]) (\<lambda>_.
     res_json (JObj [(ascii ''success'', JBool True)])))))"

section \<open>Front end: \<open>Auth.testBrowserCompatibility\<close>\<close>

text \<open>
  \<open>window\<close> is the global object of the page; the function reads \<open>window.crypto\<close>,
  \<open>window.crypto.subtle\<close> (only when \<open>window.crypto\<close> is truthy: \<open>||\<close> short-circuits)
  and \<open>window.indexedDB\<close>. The local variable \<open>browserCompatible\<close> starts as
  \<open>true\<close> and is only ever overwritten with \<open>false\<close>.
\<close>

definition testBrowserCompatibility :: "jsval \<Rightarrow> exn + bool" where
  "testBrowserCompatibility window =
     (let browserCompatible = True in
      case get_prop window (ascii ''crypto'') of
        Inl e \<Rightarrow> Inl e
      | Inr crypto \<Rightarrow>
         (case (if \<not> truthy crypto then Inr True
                else case get_prop crypto (ascii ''subtle'') of
                       Inl e \<Rightarrow> Inl e
                     | Inr subtle \<Rightarrow> Inr (\<not> truthy subtle)) of
            Inl e \<Rightarrow> Inl e
          | Inr no_crypto \<Rightarrow>
             (let browserCompatible = (if no_crypto then False else browserCompatible) in
              case get_prop window (ascii ''indexedDB'') of
                Inl e \<Rightarrow> Inl e
              | Inr indexedDB \<Rightarrow>
                 (let browserCompatible =
                        (if \<not> truthy indexedDB then False else browserCompatible)
                  in Inr browserCompatible))))"

text \<open>
  A path of properties is there when every read along it succeeds and the value reached
  is truthy: what the code tests with \<open>!\<close>.
\<close>

fun there :: "jsval \<Rightarrow> jsstring list \<Rightarrow> bool" where
  "there v [] = truthy v"
| "there v (k # ks) = (case get_prop v k of Inl e \<Rightarrow> False | Inr x \<Rightarrow> there x ks)"

definition window_modern :: jsval where
  "window_modern =
     JObj [(ascii ''crypto'', JObj [(ascii ''subtle'', JObj [])]),
           (ascii ''indexedDB'', JObj [])]"

definition window_insecure :: jsval where
  "window_insecure = JObj [(ascii ''crypto'', JObj []), (ascii ''indexedDB'', JObj [])]"

section \<open>Vocabulary of the statements\<close>

text \<open>The three bodies the handlers build themselves.\<close>

definition created_body :: jsval where
  "created_body =
     JObj [(ascii ''status'', JNum 201),
           (ascii ''message'',
            JStr (ascii ''User created with success. You need now to confirm your email.''))]"

definition success_body :: jsval where
  "success_body = JObj [(ascii ''success'', JBool True)]"

text \<open>What \<open>${process.env.name}\<close> prints: the variable, or \<open>undefined\<close> when not set.\<close>

definition env_text :: "process_env \<Rightarrow> string \<Rightarrow> jsstring" where
  "env_text env name = (case env name of None \<Rightarrow> ascii ''undefined'' | Some s \<Rightarrow> s)"

text \<open>
  The arguments of \<open>mailService.send\<close> for a confirmation mail: the user, the template
  name and the two URL variants, each ending in the text \<open>t\<close> that stands for the token.
\<close>

definition confirmation_mail :: "process_env \<Rightarrow> jsval \<Rightarrow> jsstring \<Rightarrow> jsval list" where
  "confirmation_mail env user t =
     [user, JStr (ascii ''confirmation''),
      JObj [(ascii ''confirmationUrl'',
             JStr (env_text env ''GLADYS_GATEWAY_FRONTEND_URL''
                   @ ascii ''/confirm-email/'' @ t)),
            (ascii ''confirmationUrlGladys4'',
             JStr (env_text env ''GLADYS_PLUS_FRONTEND_URL''
                   @ ascii ''/confirm-email/'' @ t))]]"

text \<open>What an \<open>await\<close> of a call makes of the handler: it goes on, or it stops.\<close>

fun awaited :: "outcome \<Rightarrow> halt + jsval" where
  "awaited (Fulfilled v) = Inr v"
| "awaited (Rejected e) = Inl (Throw (Reason e))"
| "awaited Pending = Inl Suspend"
| "awaited (Thrown e) = Inl (Throw (Reason e))"

section \<open>The user model's \<open>loginGetSalt\<close>\<close>

text \<open>
  Modelled from the spec: \<open>userModel.loginGetSalt\<close>, the function behind the handler
  \<open>loginGetSalt\<close>, is not among the sources. The specification (4.2) says that it looks
  up the user's \<open>srp_salt\<close> and that, if the email is unknown, it must still return a
  syntactically valid but non-identifying salt-shaped response; malformed input is a
  ValidationError (7). The controller hands it \<open>req.body\<close>, whose \<open>email\<close> it reads.
  \<open>users\<close> maps the email of each account to its salt, \<open>decoy\<close> gives the salt
  answered for an email without account.
\<close>

definition loginGetSalt_spec ::
  "(jsstring \<Rightarrow> jsstring option) \<Rightarrow> (jsstring \<Rightarrow> jsstring) \<Rightarrow> jsval list \<Rightarrow> outcome" where
  "loginGetSalt_spec users decoy args =
     (case args of
        [body] \<Rightarrow>
          (case get_prop body (ascii ''email'') of
             Inr (JStr email) \<Rightarrow>
               Fulfilled
                 (JObj [(ascii ''srp_salt'',
                         JStr (case users email of Some salt \<Rightarrow> salt | None \<Rightarrow> decoy email))])
           | _ \<Rightarrow> Rejected (JStr (ascii ''ValidationError'')))
      | _ \<Rightarrow> Rejected (JStr (ascii ''ValidationError'')))"

section \<open>Sample collaborators and requests\<close>

definition users_sample :: "jsstring \<Rightarrow> jsstring option" where
  "users_sample email =
     (if email = ascii ''tony.stark@gladysassistant.com'' then Some (ascii ''e0812f8c'')
      else None)"

definition decoy_sample :: "jsstring \<Rightarrow> jsstring" where
  "decoy_sample email = map (\<lambda>c. hex_digit (unat c)) email"

definition user_tony :: jsval where
  "user_tony =
     JObj [(ascii ''id'', JStr (ascii ''4e7ff439'')),
           (ascii ''email'', JStr (ascii ''tony.stark@gladysassistant.com'')),
           (ascii ''email_confirmed'', JBool False),
           (ascii ''email_confirmation_token'', JStr (ascii ''c0ffee-42'')),
           (ascii ''account_id'', JStr (ascii ''acc-1'')),
           (ascii ''srp_salt'', JStr (ascii ''e0812f8c''))]"

definition user_tony_confirmed :: jsval where
  "user_tony_confirmed =
     JObj [(ascii ''id'', JStr (ascii ''4e7ff439'')),
           (ascii ''name'', JStr (ascii ''Tony S'')),
           (ascii ''email_confirmed'', JBool True)]"

definition tokens_tony :: jsval where
  "tokens_tony =
     JObj [(ascii ''access_token'', JStr (ascii ''xxxx'')),
           (ascii ''refresh_token'', JStr (ascii ''yyyy'')),
           (ascii ''device_id'', JStr (ascii ''b82ef923''))]"

definition body_known_email :: jsval where
  "body_known_email = JObj [(ascii ''email'', JStr (ascii ''tony.stark@gladysassistant.com''))]"

definition body_unknown_email :: jsval where
  "body_unknown_email = JObj [(ascii ''email'', JStr (ascii ''nobody@nowhere.com''))]"

definition body_new_name :: jsval where
  "body_new_name = JObj [(ascii ''name'', JStr (ascii ''Tony S''))]"

text \<open>
  A user model that knows one account. Asked for a salt it answers as the specification
  says; asked to send a reset link it resolves either way, with
  different values; an update of the email leaves the user unconfirmed, any other
  update leaves a confirmed user.
\<close>

definition userModel_sample :: service where
  "userModel_sample method args =
     (if method = ''signup'' then Fulfilled user_tony
      else if method = ''updateUser'' then
        (if tl args = [body_known_email] then Fulfilled user_tony
         else Fulfilled user_tony_confirmed)
      else if method = ''resetPassword'' then Fulfilled user_tony
      else if method = ''forgotPassword'' then
        (if args = [JStr (ascii ''tony.stark@gladysassistant.com'')]
         then Fulfilled (JObj [(ascii ''mail_sent'', JBool True)])
         else Fulfilled JUndefined)
      else if method = ''loginTwoFactor'' then Fulfilled tokens_tony
      else if method = ''loginGetSalt'' then loginGetSalt_spec users_sample decoy_sample args
      else Thrown (JStr (ascii ''not a function'')))"

definition mail_down :: service where
  "mail_down method args = Rejected (JStr (ascii ''smtp unreachable''))"

definition mail_throws :: service where
  "mail_throws method args = Thrown (JStr (ascii ''template not found''))"

definition socket_up :: service where
  "socket_up method args = Fulfilled JUndefined"

definition socket_down :: service where
  "socket_down method args = Rejected (JStr (ascii ''socket unreachable''))"

definition controller_sample :: controller where
  "controller_sample =
     \<lparr>userModel = userModel_sample, mailService = mail_down, socketModel = socket_up\<rparr>"

definition controller_broadcast_down :: controller where
  "controller_broadcast_down =
     \<lparr>userModel = userModel_sample, mailService = mail_down, socketModel = socket_down\<rparr>"


definition controller_mail_throws :: controller where
  "controller_mail_throws =
     \<lparr>userModel = userModel_sample, mailService = mail_throws, socketModel = socket_up\<rparr>"

definition env_sample :: process_env where
  "env_sample name =
     (if name = ''GLADYS_GATEWAY_FRONTEND_URL'' then Some (ascii ''https://gw.example'')
      else if name = ''GLADYS_PLUS_FRONTEND_URL'' then Some (ascii ''https://plus.example'')
      else None)"

definition request_signup :: request where
  "request_signup =
     \<lparr>req_user = JUndefined,
      req_body = JObj [(ascii ''name'', JStr (ascii ''Tony'')),
                       (ascii ''email'', JStr (ascii ''tony.stark@gladysassistant.com'')),
                       (ascii ''language'', JStr (ascii ''en''))],
      req_headers = JObj []\<rparr>"

definition request_update_email :: request where
  "request_update_email =
     \<lparr>req_user = JObj [(ascii ''id'', JStr (ascii ''4e7ff439''))],
      req_body = body_known_email,
      req_headers = JObj []\<rparr>"

definition request_update_name :: request where
  "request_update_name =
     \<lparr>req_user = JObj [(ascii ''id'', JStr (ascii ''4e7ff439''))],
      req_body = body_new_name,
      req_headers = JObj []\<rparr>"

definition request_known_email :: request where
  "request_known_email =
     \<lparr>req_user = JUndefined, req_body = body_known_email, req_headers = JObj []\<rparr>"

definition request_unknown_email :: request where
  "request_unknown_email =
     \<lparr>req_user = JUndefined, req_body = body_unknown_email, req_headers = JObj []\<rparr>"

definition request_two_factor :: request where
  "request_two_factor =
     \<lparr>req_user = JObj [(ascii ''id'', JStr (ascii ''4e7ff439''))],
      req_body = JObj [(ascii ''two_factor_code'', JStr (ascii ''123456'')),
                       (ascii ''device_name'', JStr (ascii ''laptop''))],
      req_headers = JObj [(ascii ''user-agent'', JStr (ascii ''Mozilla/5.0''))]\<rparr>"

definition request_reset :: request where
  "request_reset =
     \<lparr>req_user = JUndefined,
      req_body = JObj [(ascii ''token'', JStr (ascii ''reset-1'')),
                       (ascii ''srp_salt'', JStr (ascii ''aa11'')),
                       (ascii ''srp_verifier'', JStr (ascii ''bb22''))],
      req_headers = JObj []\<rparr>"

section \<open>Properties of \<open>testBrowserCompatibility\<close>\<close>

lemma get_prop_truthy: "truthy v \<Longrightarrow> \<exists>x. get_prop v k = Inr x"
  by (cases v) simp_all

lemma get_prop_falsy: "\<not> truthy v \<Longrightarrow> get_prop v k = Inr x \<Longrightarrow> x = JUndefined"
  by (cases v) auto

lemma testBrowserCompatibility_eq:
  "testBrowserCompatibility (JObj ps) =
     Inr (there (JObj ps) [ascii ''crypto'', ascii ''subtle'']
          \<and> there (JObj ps) [ascii ''indexedDB''])"
proof -
  define crypto where
    "crypto = (case map_of ps (ascii ''crypto'') of None \<Rightarrow> JUndefined | Some v \<Rightarrow> v)"
  show ?thesis
  proof (cases "truthy crypto")
    case True
    then obtain s where "get_prop crypto (ascii ''subtle'') = Inr s"
      using get_prop_truthy by blast
    with True show ?thesis
      unfolding crypto_def by (simp add: testBrowserCompatibility_def)
  next
    case False
    have "\<not> there crypto [ascii ''subtle'']"
    proof (cases "get_prop crypto (ascii ''subtle'')")
      case (Inl e)
      then show ?thesis by simp
    next
      case (Inr x)
      with False have "x = JUndefined" by (rule get_prop_falsy)
      with Inr show ?thesis by simp
    qed
    with False show ?thesis
      unfolding crypto_def by (simp add: testBrowserCompatibility_def)
  qed
qed

text \<open>
  C10. On every page (\<open>window\<close> is an object) \<open>testBrowserCompatibility\<close> returns a
  boolean, never throws, and the boolean is \<open>true\<close> if and only if
  \<open>window.crypto.subtle\<close> is there and \<open>window.indexedDB\<close> is there; it is \<open>false\<close>
  whenever one of the two is not. "Is there" is the test the code makes with \<open>!\<close>: the
  reads succeed and the value is truthy, so a missing \<open>window.crypto\<close>, a missing
  \<open>subtle\<close> and a missing \<open>indexedDB\<close> all count as absent.
\<close>

theorem testBrowserCompatibility_iff:
  "(testBrowserCompatibility (JObj ps) = Inr True \<longleftrightarrow>
      there (JObj ps) [ascii ''crypto'', ascii ''subtle'']
      \<and> there (JObj ps) [ascii ''indexedDB''])
   \<and> (\<not> there (JObj ps) [ascii ''crypto'', ascii ''subtle'']
        \<or> \<not> there (JObj ps) [ascii ''indexedDB'']
      \<longrightarrow> testBrowserCompatibility (JObj ps) = Inr False)"
  by (simp only: testBrowserCompatibility_eq) auto

theorem testBrowserCompatibility_iff_witness:
  "testBrowserCompatibility window_modern = Inr True
   \<and> \<not> there window_insecure [ascii ''crypto'', ascii ''subtle'']
   \<and> testBrowserCompatibility window_insecure = Inr False"
proof -
  have a: "there window_modern [ascii ''crypto'', ascii ''subtle'']"
    and b: "there window_modern [ascii ''indexedDB'']"
    and c: "\<not> there window_insecure [ascii ''crypto'', ascii ''subtle'']"
    by (simp_all add: window_modern_def window_insecure_def ascii_def)
  from a b c
    testBrowserCompatibility_iff
      [of "[(ascii ''crypto'', JObj [(ascii ''subtle'', JObj [])]),
            (ascii ''indexedDB'', JObj [])]"]
    testBrowserCompatibility_iff
      [of "[(ascii ''crypto'', JObj []), (ascii ''indexedDB'', JObj [])]"]
  show ?thesis
    unfolding window_modern_def window_insecure_def by blast
qed

section \<open>How the handlers run\<close>

lemma seq_stop: "seq (t, Inl h) f = (t, Inl h)"
  by (simp add: seq_def)

lemma seq_go: "seq (t, Inr x) f = (t @ fst (f x), snd (f x))"
  by (simp add: seq_def split: prod.splits)

lemma compute_Inr: "compute (Inr x) = ([], Inr x)"
  by (simp add: compute_def)

lemma compute_Inl: "compute (Inl e) = ([], Inl (Throw e))"
  by (simp add: compute_def)

lemma await_eq: "await c who m args = ([Call who m args], awaited (invoke c who m args))"
  by (cases "invoke c who m args") (simp_all add: await_def)

lemma call_unawaited_eq:
  "call_unawaited c who m args =
     ([Call who m args],
      case invoke c who m args of Thrown e \<Rightarrow> Inl (Throw (Reason e)) | _ \<Rightarrow> Inr ())"
  by (cases "invoke c who m args") (simp_all add: call_unawaited_def)

lemmas step_simps =
  compute_Inl compute_Inr seq_stop seq_go await_eq call_unawaited_eq invoke_def
  res_json_def res_status_def skip_def

lemma awaited_Inr: "awaited p = Inr v \<longleftrightarrow> p = Fulfilled v"
  by (cases p) auto

lemma encode_kept: "list_all uri_kept s \<Longrightarrow> encode s = Inr s"
  by (induction s rule: encode.induct) (auto simp: prepend_def)

lemma to_string_env: "to_string (env_var env name) = Inr (env_text env name)"
  by (simp add: env_var_def env_text_def split: option.splits)

text \<open>Each handler, as the tree of the places where it can stop.\<close>

lemma resetPassword_no_token:
  assumes "get_prop (req_body req) (ascii ''token'') = Inl e"
  shows "resetPassword c req = ([], Inl (Throw e))"
  using assms by (simp add: resetPassword_def compute_Inl seq_stop)

lemma resetPassword_rotation:
  assumes "get_prop (req_body req) (ascii ''token'') = Inr token"
  shows "resetPassword c req =
     (case awaited (userModel c ''resetPassword'' [token, req_body req]) of
        Inl h \<Rightarrow> ([Call UserModel ''resetPassword'' [token, req_body req]], Inl h)
      | Inr newUser \<Rightarrow>
         (case get_prop newUser (ascii ''account_id'') of
            Inl e \<Rightarrow> ([Call UserModel ''resetPassword'' [token, req_body req]], Inl (Throw e))
          | Inr account_id \<Rightarrow>
             (case awaited (socketModel c ''askInstanceToClearKeyCache'' [account_id]) of
                Inl h \<Rightarrow>
                  ([Call UserModel ''resetPassword'' [token, req_body req],
                    Call SocketModel ''askInstanceToClearKeyCache'' [account_id]], Inl h)
              | Inr v \<Rightarrow>
                  ([Call UserModel ''resetPassword'' [token, req_body req],
                    Call SocketModel ''askInstanceToClearKeyCache'' [account_id],
                    ResJson success_body], Inr ()))))"
  using assms
  by (simp add: resetPassword_def step_simps success_body_def split: sum.splits)

lemma forgotPassword_run:
  assumes "get_prop (req_body req) (ascii ''email'') = Inr email"
  shows "forgotPassword c req =
     (case awaited (userModel c ''forgotPassword'' [email]) of
        Inl h \<Rightarrow> ([Call UserModel ''forgotPassword'' [email]], Inl h)
      | Inr v \<Rightarrow> ([Call UserModel ''forgotPassword'' [email], ResJson success_body], Inr ()))"
  using assms by (simp add: forgotPassword_def step_simps success_body_def split: sum.splits)


lemma loginTwoFactor_run:
  assumes "get_prop (req_body req) (ascii ''two_factor_code'') = Inr two_factor_code"
    and "get_prop (req_body req) (ascii ''device_name'') = Inr device_name"
    and "get_prop (req_headers req) (ascii ''user-agent'') = Inr user_agent"
  shows "loginTwoFactor c req =
     (case awaited (userModel c ''loginTwoFactor''
                      [req_user req, two_factor_code, device_name, user_agent]) of
        Inl h \<Rightarrow>
          ([Call UserModel ''loginTwoFactor''
              [req_user req, two_factor_code, device_name, user_agent]], Inl h)
      | Inr tokens \<Rightarrow>
          ([Call UserModel ''loginTwoFactor''
              [req_user req, two_factor_code, device_name, user_agent],
            ResJson tokens], Inr ()))"
  using assms by (simp add: loginTwoFactor_def step_simps split: sum.splits)

lemma signup_run:
  "signup c env req =
     (case awaited (userModel c ''signup'' [req_body req]) of
        Inl h \<Rightarrow> ([Call UserModel ''signup'' [req_body req]], Inl h)
      | Inr user \<Rightarrow>
         (case get_prop user (ascii ''email_confirmation_token'') of
            Inl e \<Rightarrow> ([Call UserModel ''signup'' [req_body req]], Inl (Throw e))
          | Inr token \<Rightarrow>
             (case encodeURI token of
                Inl e \<Rightarrow> ([Call UserModel ''signup'' [req_body req]], Inl (Throw e))
              | Inr encoded \<Rightarrow>
                 (case mailService c ''send'' (confirmation_mail env user encoded) of
                    Thrown e \<Rightarrow>
                      ([Call UserModel ''signup'' [req_body req],
                        Call MailService ''send'' (confirmation_mail env user encoded)],
                       Inl (Throw (Reason e)))
                  | _ \<Rightarrow>
                      ([Call UserModel ''signup'' [req_body req],
                        Call MailService ''send'' (confirmation_mail env user encoded),
                        ResStatus 201, ResJson created_body], Inr ())))))"
  by (simp add: signup_def step_simps to_string_env confirmation_mail_def created_body_def
      split: sum.splits outcome.splits)

lemma updateUser_run:
  "updateUser c env req =
     (case awaited (userModel c ''updateUser'' [req_user req, req_body req]) of
        Inl h \<Rightarrow> ([Call UserModel ''updateUser'' [req_user req, req_body req]], Inl h)
      | Inr user \<Rightarrow>
         (case get_prop user (ascii ''email_confirmed'') of
            Inl e \<Rightarrow>
              ([Call UserModel ''updateUser'' [req_user req, req_body req]], Inl (Throw e))
          | Inr email_confirmed \<Rightarrow>
             (if email_confirmed = JBool False then
                (case get_prop user (ascii ''email_confirmation_token'') of
                   Inl e \<Rightarrow>
                     ([Call UserModel ''updateUser'' [req_user req, req_body req]],
                      Inl (Throw e))
                 | Inr token \<Rightarrow>
                    (case to_string token of
                       Inl e \<Rightarrow>
                         ([Call UserModel ''updateUser'' [req_user req, req_body req]],
                          Inl (Throw e))
                     | Inr printed \<Rightarrow>
                        (case mailService c ''send'' (confirmation_mail env user printed) of
                           Thrown e \<Rightarrow>
                             ([Call UserModel ''updateUser'' [req_user req, req_body req],
                               Call MailService ''send''
                                 (confirmation_mail env user printed)],
                              Inl (Throw (Reason e)))
                         | _ \<Rightarrow>
                             ([Call UserModel ''updateUser'' [req_user req, req_body req],
                               Call MailService ''send''
                                 (confirmation_mail env user printed),
                               ResJson user], Inr ()))))
              else
                ([Call UserModel ''updateUser'' [req_user req, req_body req],
                  ResJson user], Inr ()))))"
  by (simp add: updateUser_def step_simps to_string_env confirmation_mail_def
      split: sum.splits outcome.splits)

text \<open>Facts about the samples.\<close>

lemma reset_token:
  "get_prop (req_body request_reset) (ascii ''token'') = Inr (JStr (ascii ''reset-1''))"
  by (simp add: request_reset_def ascii_def)

lemma tony_account: "get_prop user_tony (ascii ''account_id'') = Inr (JStr (ascii ''acc-1''))"
  by (simp add: user_tony_def ascii_def)

lemma tony_token:
  "get_prop user_tony (ascii ''email_confirmation_token'') = Inr (JStr (ascii ''c0ffee-42''))"
  by (simp add: user_tony_def ascii_def)

lemma tony_unconfirmed: "get_prop user_tony (ascii ''email_confirmed'') = Inr (JBool False)"
  by (simp add: user_tony_def ascii_def)

lemma tony_confirmed:
  "get_prop user_tony_confirmed (ascii ''email_confirmed'') = Inr (JBool True)"
  by (simp add: user_tony_confirmed_def ascii_def)

lemma token_kept: "list_all uri_kept (ascii ''c0ffee-42'')"
  by (simp add: uri_kept_def ascii_def)

lemma token_encoded: "encodeURI (JStr (ascii ''c0ffee-42'')) = Inr (ascii ''c0ffee-42'')"
  by (simp add: encodeURI_def encode_kept [OF token_kept])

lemma known_email:
  "get_prop (req_body request_known_email) (ascii ''email'') =
     Inr (JStr (ascii ''tony.stark@gladysassistant.com''))"
  by (simp add: request_known_email_def body_known_email_def)

lemma unknown_email:
  "get_prop (req_body request_unknown_email) (ascii ''email'') =
     Inr (JStr (ascii ''nobody@nowhere.com''))"
  by (simp add: request_unknown_email_def body_unknown_email_def)

lemma sample_rotation:
  "userModel controller_sample ''resetPassword'' args = Fulfilled user_tony"
  "userModel controller_broadcast_down ''resetPassword'' args = Fulfilled user_tony"
  by (simp_all add: controller_sample_def controller_broadcast_down_def userModel_sample_def)

lemma sample_broadcast:
  "socketModel controller_sample ''askInstanceToClearKeyCache'' args = Fulfilled JUndefined"
  "socketModel controller_broadcast_down ''askInstanceToClearKeyCache'' args =
     Rejected (JStr (ascii ''socket unreachable''))"
  by (simp_all add: controller_sample_def controller_broadcast_down_def socket_up_def
      socket_down_def)

lemma sample_mail:
  "mailService controller_sample ''send'' args = Rejected (JStr (ascii ''smtp unreachable''))"
  "mailService controller_mail_throws ''send'' args =
     Thrown (JStr (ascii ''template not found''))"
  by (simp_all add: controller_sample_def controller_mail_throws_def mail_down_def
      mail_throws_def)


lemma sample_confirmation_mail:
  "confirmation_mail env_sample user_tony (ascii ''c0ffee-42'') =
     [user_tony, JStr (ascii ''confirmation''),
      JObj [(ascii ''confirmationUrl'',
             JStr (ascii ''https://gw.example/confirm-email/c0ffee-42'')),
            (ascii ''confirmationUrlGladys4'',
             JStr (ascii ''https://plus.example/confirm-email/c0ffee-42''))]]"
  by (simp add: confirmation_mail_def env_text_def env_sample_def ascii_def)


section \<open>Password reset\<close>

text \<open>
  C1, as the specification states it, fails. Here the credential rotation
  (\<open>userModel.resetPassword\<close>) succeeds and the broadcast
  (\<open>socketModel.askInstanceToClearKeyCache\<close>) rejects: the handler rejects with the
  reason of the broadcast and \<open>res.json\<close> is never reached, so no \<open>{success: true}\<close>
  is sent.
\<close>

theorem resetPassword_broadcast_failure_counterexample:
  "userModel controller_broadcast_down ''resetPassword''
       [JStr (ascii ''reset-1''), req_body request_reset] = Fulfilled user_tony
   \<and> resetPassword controller_broadcast_down request_reset =
       ([Call UserModel ''resetPassword'' [JStr (ascii ''reset-1''), req_body request_reset],
         Call SocketModel ''askInstanceToClearKeyCache'' [JStr (ascii ''acc-1'')]],
        Inl (Throw (Reason (JStr (ascii ''socket unreachable'')))))
   \<and> bodies (fst (resetPassword controller_broadcast_down request_reset)) = []"
proof -
  have run: "resetPassword controller_broadcast_down request_reset =
       ([Call UserModel ''resetPassword'' [JStr (ascii ''reset-1''), req_body request_reset],
         Call SocketModel ''askInstanceToClearKeyCache'' [JStr (ascii ''acc-1'')]],
        Inl (Throw (Reason (JStr (ascii ''socket unreachable'')))))"
    by (simp add: resetPassword_rotation [OF reset_token] sample_rotation tony_account
        sample_broadcast)
  show ?thesis
    by (simp add: sample_rotation run)
qed

text \<open>
  C1, amended. For every \<open>resetPassword\<close> request whose credential rotation succeeds
  and returns a user, the controller then calls the broadcast with that user's
  \<open>account_id\<close> and awaits it: when the broadcast fulfils, the response is
  \<open>{success: true}\<close>; when the broadcast rejects or throws, the handler fails with the
  reason of the broadcast and sends no body; when the broadcast never settles, no
  response is sent. In every case the rotation has been done before and the controller
  calls nothing to undo it.
\<close>

theorem resetPassword_after_rotation:
  assumes "get_prop (req_body req) (ascii ''token'') = Inr token"
    and "userModel c ''resetPassword'' [token, req_body req] = Fulfilled newUser"
    and "get_prop newUser (ascii ''account_id'') = Inr account_id"
  shows "resetPassword c req =
     (case socketModel c ''askInstanceToClearKeyCache'' [account_id] of
        Fulfilled v \<Rightarrow>
          ([Call UserModel ''resetPassword'' [token, req_body req],
            Call SocketModel ''askInstanceToClearKeyCache'' [account_id],
            ResJson (JObj [(ascii ''success'', JBool True)])], Inr ())
      | Rejected e \<Rightarrow>
          ([Call UserModel ''resetPassword'' [token, req_body req],
            Call SocketModel ''askInstanceToClearKeyCache'' [account_id]],
           Inl (Throw (Reason e)))
      | Pending \<Rightarrow>
          ([Call UserModel ''resetPassword'' [token, req_body req],
            Call SocketModel ''askInstanceToClearKeyCache'' [account_id]],
           Inl Suspend)
      | Thrown e \<Rightarrow>
          ([Call UserModel ''resetPassword'' [token, req_body req],
            Call SocketModel ''askInstanceToClearKeyCache'' [account_id]],
           Inl (Throw (Reason e))))"
  using assms
  by (simp add: resetPassword_rotation [of req token] success_body_def split: outcome.splits)

theorem resetPassword_after_rotation_witness:
  "resetPassword controller_sample request_reset =
     ([Call UserModel ''resetPassword'' [JStr (ascii ''reset-1''), req_body request_reset],
       Call SocketModel ''askInstanceToClearKeyCache'' [JStr (ascii ''acc-1'')],
       ResJson (JObj [(ascii ''success'', JBool True)])], Inr ())"
  using resetPassword_after_rotation [OF reset_token sample_rotation(1) tony_account]
  by (simp add: sample_broadcast)

text \<open>
  C2. In every \<open>resetPassword\<close> request, whenever a call of the socket model appears in
  the trace, it is \<open>askInstanceToClearKeyCache\<close>, it is the only one, it comes right
  after the call of \<open>userModel.resetPassword\<close>, that call has fulfilled with a user,
  and its single argument is the \<open>account_id\<close> read from that user.
\<close>

theorem resetPassword_broadcast_order:
  assumes "Call SocketModel method args \<in> set (fst (resetPassword c req))"
  shows "\<exists>token newUser account_id rest.
           get_prop (req_body req) (ascii ''token'') = Inr token
         \<and> userModel c ''resetPassword'' [token, req_body req] = Fulfilled newUser
         \<and> get_prop newUser (ascii ''account_id'') = Inr account_id
         \<and> method = ''askInstanceToClearKeyCache'' \<and> args = [account_id]
         \<and> fst (resetPassword c req) =
             Call UserModel ''resetPassword'' [token, req_body req]
             # Call SocketModel ''askInstanceToClearKeyCache'' [account_id] # rest
         \<and> calls_to SocketModel (fst (resetPassword c req)) =
             [Call SocketModel ''askInstanceToClearKeyCache'' [account_id]]"
proof (cases "get_prop (req_body req) (ascii ''token'')")
  case (Inl e)
  with assms show ?thesis by (simp add: resetPassword_no_token)
next
  case token: (Inr token)
  note run = resetPassword_rotation [OF token, of c]
  show ?thesis
  proof (cases "userModel c ''resetPassword'' [token, req_body req]")
    case (Fulfilled newUser)
    show ?thesis
    proof (cases "get_prop newUser (ascii ''account_id'')")
      case (Inl e)
      with assms run Fulfilled show ?thesis by simp
    next
      case (Inr account_id)
      with assms run Fulfilled token show ?thesis
        by (cases "socketModel c ''askInstanceToClearKeyCache'' [account_id]") auto
    qed
  qed (use assms run in simp_all)
qed

theorem resetPassword_broadcast_order_witness:
  "Call SocketModel ''askInstanceToClearKeyCache'' [JStr (ascii ''acc-1'')]
     \<in> set (fst (resetPassword controller_sample request_reset))
   \<and> userModel controller_sample ''resetPassword''
       [JStr (ascii ''reset-1''), req_body request_reset] = Fulfilled user_tony
   \<and> get_prop user_tony (ascii ''account_id'') = Inr (JStr (ascii ''acc-1''))
   \<and> calls_to SocketModel (fst (resetPassword controller_sample request_reset)) =
       [Call SocketModel ''askInstanceToClearKeyCache'' [JStr (ascii ''acc-1'')]]"
proof -
  have called: "Call SocketModel ''askInstanceToClearKeyCache'' [JStr (ascii ''acc-1'')]
     \<in> set (fst (resetPassword controller_sample request_reset))"
    by (simp add: resetPassword_rotation [OF reset_token] sample_rotation tony_account
        sample_broadcast)
  from resetPassword_broadcast_order [OF called]
  have "calls_to SocketModel (fst (resetPassword controller_sample request_reset)) =
       [Call SocketModel ''askInstanceToClearKeyCache'' [JStr (ascii ''acc-1'')]]"
    by blast
  with called show ?thesis
    by (simp add: sample_rotation tony_account)
qed

text \<open>
  C9. For every \<open>resetPassword\<close> request that succeeds (the handler runs to its end),
  the response is status 200 with the single body \<open>{success: true}\<close>: a constant, so
  no field of the user that \<open>userModel.resetPassword\<close> returned is in it.
\<close>

theorem resetPassword_success_body:
  assumes "snd (resetPassword c req) = Inr ()"
  shows "response (fst (resetPassword c req)) =
           (200, [JObj [(ascii ''success'', JBool True)]])"
proof (cases "get_prop (req_body req) (ascii ''token'')")
  case (Inl e)
  with assms show ?thesis by (simp add: resetPassword_no_token)
next
  case (Inr token)
  with assms show ?thesis
    by (auto simp: resetPassword_rotation [of req token] response_def success_body_def
        split: sum.splits)
qed

theorem resetPassword_success_body_witness:
  "snd (resetPassword controller_sample request_reset) = Inr ()
   \<and> response (fst (resetPassword controller_sample request_reset)) =
       (200, [JObj [(ascii ''success'', JBool True)]])"
proof -
  have completes: "snd (resetPassword controller_sample request_reset) = Inr ()"
    by (simp add: resetPassword_rotation [OF reset_token] sample_rotation tony_account
        sample_broadcast)
  from resetPassword_success_body [OF completes] completes
  show ?thesis by simp
qed

section \<open>Forgotten password\<close>

text \<open>
  C3. For every request with an \<open>email\<close> on which \<open>userModel.forgotPassword\<close>
  resolves, the handler responds with status 200 and exactly the body
  \<open>{success: true}\<close>, whatever the model resolved to; so two such requests, for any two
  emails and any two models, get the same response.
\<close>

theorem forgotPassword_uniform:
  assumes "get_prop (req_body req) (ascii ''email'') = Inr email"
    and "userModel c ''forgotPassword'' [email] = Fulfilled v"
    and "get_prop (req_body req') (ascii ''email'') = Inr email'"
    and "userModel c' ''forgotPassword'' [email'] = Fulfilled v'"
  shows "forgotPassword c req =
           ([Call UserModel ''forgotPassword'' [email],
             ResJson (JObj [(ascii ''success'', JBool True)])], Inr ())
       \<and> response (fst (forgotPassword c req)) =
           (200, [JObj [(ascii ''success'', JBool True)]])
       \<and> response (fst (forgotPassword c' req')) = response (fst (forgotPassword c req))"
  using assms
  by (simp add: forgotPassword_run [of req email] forgotPassword_run [of req' email']
      response_def success_body_def)

theorem forgotPassword_uniform_witness:
  "userModel controller_sample ''forgotPassword''
       [JStr (ascii ''tony.stark@gladysassistant.com'')]
     = Fulfilled (JObj [(ascii ''mail_sent'', JBool True)])
   \<and> userModel controller_sample ''forgotPassword'' [JStr (ascii ''nobody@nowhere.com'')]
     = Fulfilled JUndefined
   \<and> response (fst (forgotPassword controller_sample request_known_email)) =
       (200, [JObj [(ascii ''success'', JBool True)]])
   \<and> response (fst (forgotPassword controller_sample request_unknown_email)) =
       response (fst (forgotPassword controller_sample request_known_email))"
proof -
  have known: "userModel controller_sample ''forgotPassword''
       [JStr (ascii ''tony.stark@gladysassistant.com'')]
     = Fulfilled (JObj [(ascii ''mail_sent'', JBool True)])"
    by (simp add: controller_sample_def userModel_sample_def)
  have unknown: "userModel controller_sample ''forgotPassword''
       [JStr (ascii ''nobody@nowhere.com'')] = Fulfilled JUndefined"
    by (simp add: controller_sample_def userModel_sample_def ascii_def)
  from forgotPassword_uniform [OF known_email known unknown_email unknown]
  have "response (fst (forgotPassword controller_sample request_known_email)) =
          (200, [JObj [(ascii ''success'', JBool True)]])
      \<and> response (fst (forgotPassword controller_sample request_unknown_email)) =
          response (fst (forgotPassword controller_sample request_known_email))"
    by blast
  with known unknown show ?thesis by blast
qed

section \<open>Login\<close>



text \<open>
  C7. For every \<open>loginTwoFactor\<close> request that carries a body and headers (neither is
  \<open>undefined\<close> or \<open>null\<close>, so the three reads succeed), the handler makes exactly one
  call, \<open>userModel.loginTwoFactor\<close>, with exactly the four arguments \<open>req.user\<close>,
  \<open>req.body.two_factor_code\<close>, \<open>req.body.device_name\<close> and
  \<open>req.headers['user-agent']\<close>; when the model fulfils, the response body is the value
  it fulfilled with (its \<open>{access_token, refresh_token, device_id}\<close>), unchanged; when
  it fails, the handler fails with the same reason and sends nothing.
\<close>

theorem loginTwoFactor_forwards:
  assumes "get_prop (req_body req) (ascii ''two_factor_code'') = Inr two_factor_code"
    and "get_prop (req_body req) (ascii ''device_name'') = Inr device_name"
    and "get_prop (req_headers req) (ascii ''user-agent'') = Inr user_agent"
  shows "loginTwoFactor c req =
     (case userModel c ''loginTwoFactor''
             [req_user req, two_factor_code, device_name, user_agent] of
        Fulfilled tokens \<Rightarrow>
          ([Call UserModel ''loginTwoFactor''
              [req_user req, two_factor_code, device_name, user_agent],
            ResJson tokens], Inr ())
      | Rejected e \<Rightarrow>
          ([Call UserModel ''loginTwoFactor''
              [req_user req, two_factor_code, device_name, user_agent]],
           Inl (Throw (Reason e)))
      | Pending \<Rightarrow>
          ([Call UserModel ''loginTwoFactor''
              [req_user req, two_factor_code, device_name, user_agent]],
           Inl Suspend)
      | Thrown e \<Rightarrow>
          ([Call UserModel ''loginTwoFactor''
              [req_user req, two_factor_code, device_name, user_agent]],
           Inl (Throw (Reason e))))"
  by (simp add: loginTwoFactor_run [OF assms] split: outcome.splits)

theorem loginTwoFactor_forwards_witness:
  "loginTwoFactor controller_sample request_two_factor =
     ([Call UserModel ''loginTwoFactor''
         [JObj [(ascii ''id'', JStr (ascii ''4e7ff439''))], JStr (ascii ''123456''),
          JStr (ascii ''laptop''), JStr (ascii ''Mozilla/5.0'')],
       ResJson
         (JObj [(ascii ''access_token'', JStr (ascii ''xxxx'')),
                (ascii ''refresh_token'', JStr (ascii ''yyyy'')),
                (ascii ''device_id'', JStr (ascii ''b82ef923''))])], Inr ())"
proof -
  have code: "get_prop (req_body request_two_factor) (ascii ''two_factor_code'') =
      Inr (JStr (ascii ''123456''))"
    by (simp add: request_two_factor_def ascii_def)
  have name: "get_prop (req_body request_two_factor) (ascii ''device_name'') =
      Inr (JStr (ascii ''laptop''))"
    by (simp add: request_two_factor_def ascii_def)
  have agent: "get_prop (req_headers request_two_factor) (ascii ''user-agent'') =
      Inr (JStr (ascii ''Mozilla/5.0''))"
    by (simp add: request_two_factor_def)
  have user: "req_user request_two_factor = JObj [(ascii ''id'', JStr (ascii ''4e7ff439''))]"
    by (simp add: request_two_factor_def)
  have model: "userModel controller_sample ''loginTwoFactor'' args = Fulfilled tokens_tony"
    for args
    by (simp add: controller_sample_def userModel_sample_def)
  show ?thesis
    using loginTwoFactor_forwards [OF code name agent, of controller_sample]
    by (simp add: model user tokens_tony_def)
qed

section \<open>Signup\<close>

text \<open>
  C4. For every successful signup (the handler runs to its end), the response is status
  201 with exactly the body \<open>{status: 201, message: 'User created with success. You need
  now to confirm your email.'}\<close>: a constant, in which the
  \<open>email_confirmation_token\<close> of the created user does not appear. The handler has
  made exactly two calls: \<open>userModel.signup\<close>, which returned the user, and then
  \<open>mailService.send\<close>, the only place the user and the token go to.
\<close>

theorem signup_response:
  assumes "snd (signup c env req) = Inr ()"
  shows "response (fst (signup c env req)) =
           (201, [JObj [(ascii ''status'', JNum 201),
                        (ascii ''message'',
                         JStr (ascii ''User created with success. You need now to confirm your email.''))]])
       \<and> (\<exists>user token encoded.
             userModel c ''signup'' [req_body req] = Fulfilled user
           \<and> get_prop user (ascii ''email_confirmation_token'') = Inr token
           \<and> encodeURI token = Inr encoded
           \<and> fst (signup c env req) =
               [Call UserModel ''signup'' [req_body req],
                Call MailService ''send'' (confirmation_mail env user encoded),
                ResStatus 201,
                ResJson (JObj [(ascii ''status'', JNum 201),
                        (ascii ''message'',
                         JStr (ascii ''User created with success. You need now to confirm your email.''))])])"
proof (cases "userModel c ''signup'' [req_body req]")
  case (Fulfilled user)
  show ?thesis
  proof (cases "get_prop user (ascii ''email_confirmation_token'')")
    case (Inl e)
    with assms Fulfilled show ?thesis by (simp add: signup_run)
  next
    case token: (Inr token)
    show ?thesis
    proof (cases "encodeURI token")
      case (Inl e)
      with assms Fulfilled token show ?thesis by (simp add: signup_run)
    next
      case (Inr encoded)
      with assms Fulfilled token show ?thesis
        by (cases "mailService c ''send'' (confirmation_mail env user encoded)")
          (simp_all add: signup_run response_def created_body_def)
    qed
  qed
qed (use assms in \<open>simp_all add: signup_run\<close>)

theorem signup_response_witness:
  "snd (signup controller_sample env_sample request_signup) = Inr ()
   \<and> response (fst (signup controller_sample env_sample request_signup)) =
           (201, [JObj [(ascii ''status'', JNum 201),
                        (ascii ''message'',
                         JStr (ascii ''User created with success. You need now to confirm your email.''))]])"
proof -
  have model: "userModel controller_sample ''signup'' args = Fulfilled user_tony" for args
    by (simp add: controller_sample_def userModel_sample_def)
  have completes: "snd (signup controller_sample env_sample request_signup) = Inr ()"
    by (simp add: signup_run model tony_token token_encoded sample_mail)
  from signup_response [OF completes] completes show ?thesis
    by blast
qed




section \<open>Update of the user\<close>

text \<open>
  C8. For every \<open>updateUser\<close> request that succeeds (the handler runs to its end), the
  model has returned a user; a \<open>confirmation\<close> mail is handed to the mail collaborator
  if and only if the \<open>email_confirmed\<close> field of that user is \<open>false\<close>, and then it
  is the only one and its two URL variants end in that user's
  \<open>email_confirmation_token\<close> as the template literal prints it (a string token is
  itself, letter for letter); otherwise, in particular when \<open>email_confirmed\<close> is
  \<open>true\<close>, no mail is sent. In both cases the response is status 200 with that user as
  its body.
\<close>

theorem updateUser_mail:
  assumes "snd (updateUser c env req) = Inr ()"
  shows "\<exists>user email_confirmed token.
           userModel c ''updateUser'' [req_user req, req_body req] = Fulfilled user
         \<and> get_prop user (ascii ''email_confirmed'') = Inr email_confirmed
         \<and> get_prop user (ascii ''email_confirmation_token'') = Inr token
         \<and> response (fst (updateUser c env req)) = (200, [user])
         \<and> (if email_confirmed = JBool False
            then \<exists>printed.
                   to_string token = Inr printed
                 \<and> (\<forall>s. token = JStr s \<longrightarrow> printed = s)
                 \<and> calls_to MailService (fst (updateUser c env req)) =
                     [Call MailService ''send'' (confirmation_mail env user printed)]
            else calls_to MailService (fst (updateUser c env req)) = [])"
proof (cases "userModel c ''updateUser'' [req_user req, req_body req]")
  case (Fulfilled user)
  show ?thesis
  proof (cases "get_prop user (ascii ''email_confirmed'')")
    case (Inl e)
    with assms Fulfilled show ?thesis by (simp add: updateUser_run)
  next
    case confirmed: (Inr email_confirmed)
    then obtain token where token: "get_prop user (ascii ''email_confirmation_token'') = Inr token"
      by (cases user) auto
    show ?thesis
    proof (cases "email_confirmed = JBool False")
      case True
      show ?thesis
      proof (cases "to_string token")
        case (Inl e)
        with assms Fulfilled confirmed token True show ?thesis
          by (simp add: updateUser_run)
      next
        case (Inr printed)
        with assms Fulfilled confirmed token True show ?thesis
          by (cases "mailService c ''send'' (confirmation_mail env user printed)")
            (auto simp: updateUser_run response_def)
      qed
    next
      case False
      with assms Fulfilled confirmed token show ?thesis
        by (simp add: updateUser_run response_def)
    qed
  qed
qed (use assms in \<open>simp_all add: updateUser_run\<close>)

theorem updateUser_mail_witness:
  "snd (updateUser controller_sample env_sample request_update_email) = Inr ()
   \<and> response (fst (updateUser controller_sample env_sample request_update_email)) =
       (200, [user_tony])
   \<and> calls_to MailService (fst (updateUser controller_sample env_sample request_update_email)) =
       [Call MailService ''send''
           [user_tony, JStr (ascii ''confirmation''),
            JObj [(ascii ''confirmationUrl'',
                   JStr (ascii ''https://gw.example/confirm-email/c0ffee-42'')),
                  (ascii ''confirmationUrlGladys4'',
                   JStr (ascii ''https://plus.example/confirm-email/c0ffee-42''))]]]
   \<and> snd (updateUser controller_sample env_sample request_update_name) = Inr ()
   \<and> response (fst (updateUser controller_sample env_sample request_update_name)) =
       (200, [user_tony_confirmed])
   \<and> calls_to MailService (fst (updateUser controller_sample env_sample request_update_name)) = []"
proof -
  have email: "userModel controller_sample ''updateUser''
      [req_user request_update_email, req_body request_update_email] = Fulfilled user_tony"
    by (simp add: controller_sample_def userModel_sample_def request_update_email_def)
  have name: "userModel controller_sample ''updateUser''
      [req_user request_update_name, req_body request_update_name] = Fulfilled user_tony_confirmed"
    by (simp add: controller_sample_def userModel_sample_def request_update_name_def
        body_new_name_def body_known_email_def ascii_def)
  note mail = sample_confirmation_mail
  have c1: "snd (updateUser controller_sample env_sample request_update_email) = Inr ()"
    by (simp add: updateUser_run email tony_unconfirmed tony_token sample_mail)
  have c2: "snd (updateUser controller_sample env_sample request_update_name) = Inr ()"
    by (simp add: updateUser_run name tony_confirmed)
  from updateUser_mail [OF c1] have r1:
    "response (fst (updateUser controller_sample env_sample request_update_email)) =
       (200, [user_tony])
    \<and> calls_to MailService (fst (updateUser controller_sample env_sample request_update_email)) =
       [Call MailService ''send'' (confirmation_mail env_sample user_tony (ascii ''c0ffee-42''))]"
    by (auto simp: email tony_unconfirmed tony_token)
  from updateUser_mail [OF c2] have r2:
    "response (fst (updateUser controller_sample env_sample request_update_name)) =
       (200, [user_tony_confirmed])
    \<and> calls_to MailService (fst (updateUser controller_sample env_sample request_update_name)) = []"
    by (auto simp: name tony_confirmed)
  from c1 c2 r1 r2 show ?thesis by (simp add: mail)
qed

end
